theory Spec2Isabelle
  imports Main "HOL-Library.AList" "HOL-Library.Sublist"
begin

section \<open>Data model\<close>

text \<open>
  The orchestration code of \<^verbatim>\<open>agent_core.py\<close> and \<^verbatim>\<open>mcp_helper.py\<close> handles JSON-like
  Python values: tool arguments, schema fragments and parts of message contents. A Python
  \<^verbatim>\<open>dict\<close> keeps its insertion order, so it is an association list. Non-integer numbers
  play no role in the code and are left out.
\<close>

datatype json =
    JNull
  | JBool bool
  | JInt int
  | JStr string
  | JList "json list"
  | JDict "(string \<times> json) list"

type_synonym kwargs = "(string \<times> json) list"

text \<open>
  An instance of Python's \<^verbatim>\<open>Exception\<close>: its class name and the text \<^verbatim>\<open>str(e)\<close>. Both
  handlers of the code are \<^verbatim>\<open>except Exception\<close>; signals outside that class (interrupts,
  cancellation of a coroutine) are not part of the model.
\<close>

datatype exception = Exception (class_name: string) (str_of: string)

text \<open>
  The content of a message is a string or a list of parts, as in \<^verbatim>\<open>langchain_core\<close>.
\<close>

datatype content = Str string | Parts "json list"

text \<open>A tool call of an assistant message: the keys \<^verbatim>\<open>name\<close>, \<^verbatim>\<open>args\<close> and \<^verbatim>\<open>id\<close>.\<close>

datatype tool_call = ToolCall (call_name: string) (call_args: kwargs) (call_id: string)

datatype message =
    SystemMessage content
  | HumanMessage content
  | AIMessage content "tool_call list"
  | ToolMessage (tool_call_id: string) (tool_message_name: string) (tool_content: content)

text \<open>
  What a worker declares for one tool (\<^verbatim>\<open>list_tools\<close>): \<^verbatim>\<open>inputSchema\<close> is read only through
  \<^verbatim>\<open>.get("properties", {})\<close> and \<^verbatim>\<open>.get("required", [])\<close>, so the two keys are optional
  fields. A property's definition is a dict, of which the code reads the key \<^verbatim>\<open>type\<close>.
\<close>

record input_schema =
  properties :: "(string \<times> kwargs) list option"
  required :: "string list option"

record tool_info =
  info_name :: string
  info_description :: string
  inputSchema :: input_schema

text \<open>
  The argument contract built with \<^verbatim>\<open>create_model\<close>: for every field the Python type and
  the default, where \<^verbatim>\<open>...\<close> (Ellipsis) marks a required field and \<^verbatim>\<open>None\<close> is
  \<open>Default JNull\<close>.
\<close>

datatype python_type = T_str | T_int | T_float | T_bool | T_list | T_dict

datatype field_default = Ellipsis | Default json

type_synonym fields = "(string \<times> python_type \<times> field_default) list"

record args_model =
  model_name :: string
  model_fields :: fields

text \<open>
  The closure \<^verbatim>\<open>_tool_wrapper\<close> made by \<^verbatim>\<open>make_tool_wrapper(tool_name)\<close> inside
  \<^verbatim>\<open>MCPClient.get_tools\<close>: it captures the client (named here by its server script) and the
  tool name, and forwards its keyword arguments to \<^verbatim>\<open>session.call_tool\<close>.
\<close>

datatype coroutine = ToolWrapper (wrapper_client: string) (wrapper_tool_name: string)

record lc_tool =
  name :: string
  description :: string
  args_schema :: "args_model option"
  coroutine :: coroutine

text \<open>One request \<^verbatim>\<open>session.call_tool(tool_name, arguments=kwargs)\<close> sent to a worker.\<close>

datatype invocation = CallTool (inv_client: string) (inv_tool_name: string) (inv_arguments: kwargs)

text \<open>
  The world outside the repository. Each oracle answers from the full record of the
  requests made so far, the current one last, so a worker or the decision client may answer
  the same request differently at different times.
  \<^item> \<open>connect\<close>: \<^verbatim>\<open>MCPClient.connect\<close> for a server script, \<open>Some e\<close> when spawn or
    handshake raises;
  \<^item> \<open>list_tools\<close>: the worker's answer to \<^verbatim>\<open>session.list_tools()\<close>;
  \<^item> \<open>call_tool\<close>: the worker's answer to \<^verbatim>\<open>session.call_tool\<close>, a result object or an
    exception;
  \<^item> \<open>repr_result\<close>: \<^verbatim>\<open>str\<close> of such a result object;
  \<^item> \<open>ainvoke\<close>: the decision client bound to the tools, answering a message history with
    the content and the tool calls of an assistant message, or raising;
  \<^item> \<open>recursion_limit\<close>: the number of node executions the graph runtime allows in one
    run before it raises \<^verbatim>\<open>GraphRecursionError\<close>.
\<close>

record 'r environment =
  connect :: "string \<Rightarrow> exception option"
  list_tools :: "string \<Rightarrow> exception + tool_info list"
  call_tool :: "invocation list \<Rightarrow> exception + 'r"
  repr_result :: "'r \<Rightarrow> string"
  ainvoke :: "message list list \<Rightarrow> exception + content \<times> tool_call list"
  recursion_limit :: nat

text \<open>The requests made so far: to the workers and to the decision client.\<close>

record trace =
  tool_log :: "invocation list"
  llm_log :: "message list list"

text \<open>The state of a \<^verbatim>\<open>LangGraphAgentExecutor\<close> (the fields the code reads back).\<close>

record executor =
  app :: bool
  mcp_clients :: "string list"
  tools :: "lc_tool list"
  conversation_history :: "message list"

section \<open>Schema compilation (\<^verbatim>\<open>MCPClient.get_tools\<close>)\<close>

definition dict_get :: "kwargs \<Rightarrow> string \<Rightarrow> json \<Rightarrow> json" where
  "dict_get d k dflt = (case map_of d k of None \<Rightarrow> dflt | Some v \<Rightarrow> v)"

definition python_type_of :: "kwargs \<Rightarrow> python_type" where
  "python_type_of field_def =
     (let field_type = dict_get field_def ''type'' (JStr ''string'') in
      if field_type = JStr ''integer'' then T_int
      else if field_type = JStr ''number'' then T_float
      else if field_type = JStr ''boolean'' then T_bool
      else if field_type = JStr ''array'' then T_list
      else if field_type = JStr ''object'' then T_dict
      else T_str)"

text \<open>The body of the loop over \<^verbatim>\<open>properties.items()\<close>: \<^verbatim>\<open>fields[field_name] = (type, default)\<close>.\<close>

definition add_field :: "string list \<Rightarrow> string \<times> kwargs \<Rightarrow> fields \<Rightarrow> fields" where
  "add_field req p flds =
     (let field_name = fst p; field_def = snd p; python_type = python_type_of field_def in
      if field_name \<in> set req
      then AList.update field_name (python_type, Ellipsis) flds
      else AList.update field_name (python_type, Default JNull) flds)"

definition compile_fields :: "(string \<times> kwargs) list \<Rightarrow> string list \<Rightarrow> fields" where
  "compile_fields props req = fold (add_field req) props []"

text \<open>One iteration of the loop over \<^verbatim>\<open>result.tools\<close>, for the client of server \<open>srv\<close>.\<close>

definition make_tool :: "string \<Rightarrow> tool_info \<Rightarrow> lc_tool" where
  "make_tool srv ti =
     (let props = (case properties (inputSchema ti) of None \<Rightarrow> [] | Some ps \<Rightarrow> ps);
          req = (case required (inputSchema ti) of None \<Rightarrow> [] | Some rs \<Rightarrow> rs);
          flds = compile_fields props req;
          ArgsModel = (if flds \<noteq> []
                       then Some \<lparr>model_name = info_name ti @ ''Args'', model_fields = flds\<rparr>
                       else None)
      in \<lparr>name = info_name ti, description = info_description ti, args_schema = ArgsModel,
          coroutine = ToolWrapper srv (info_name ti)\<rparr>)"

text \<open>
  \<^verbatim>\<open>get_tools\<close> of a client whose \<^verbatim>\<open>session\<close> is set (\<open>connected\<close>) or not.
\<close>

definition get_tools :: "'r environment \<Rightarrow> string \<Rightarrow> bool \<Rightarrow> exception + lc_tool list" where
  "get_tools env srv connected =
     (if \<not> connected then Inl (Exception ''RuntimeError'' ''Client not connected'')
      else case list_tools env srv of
             Inl e \<Rightarrow> Inl e
           | Inr infos \<Rightarrow> Inr (map (make_tool srv) infos))"

section \<open>Initialisation (\<^verbatim>\<open>LangGraphAgentExecutor.initialize\<close>)\<close>

definition server_files :: "string list" where
  "server_files = [''computer_info_server.py'', ''security_server.py'', ''maintenance_server.py'']"

text \<open>
  The body of the loop over \<^verbatim>\<open>server_files\<close>, on the pair of the local list \<^verbatim>\<open>tools\<close> and
  \<^verbatim>\<open>self.mcp_clients\<close>. A failure of \<^verbatim>\<open>connect\<close> or of \<^verbatim>\<open>get_tools\<close> is caught and logged; the
  loop goes on with the next server. The client is named by its server file (the code
  passes its absolute path).
\<close>

definition connect_server ::
  "'r environment \<Rightarrow> string \<Rightarrow> lc_tool list \<times> string list \<Rightarrow> lc_tool list \<times> string list" where
  "connect_server env server_file acc =
     (case connect env server_file of
        Some e \<Rightarrow> acc
      | None \<Rightarrow>
          (case get_tools env server_file True of
             Inl e \<Rightarrow> (fst acc, snd acc @ [server_file])
           | Inr server_tools \<Rightarrow> (fst acc @ server_tools, snd acc @ [server_file])))"

definition connect_servers ::
  "'r environment \<Rightarrow> string list \<Rightarrow> lc_tool list \<times> string list \<Rightarrow> lc_tool list \<times> string list" where
  "connect_servers env files acc = fold (connect_server env) files acc"

text \<open>
  \<^verbatim>\<open>initialize\<close>: the tools of the servers that answered become \<^verbatim>\<open>self.tools\<close>, the model is
  bound to them and the graph is compiled (\<^verbatim>\<open>self.app\<close>). Building the model object and the
  graph is library code and taken to succeed.
\<close>

definition initialize :: "'r environment \<Rightarrow> executor \<Rightarrow> executor" where
  "initialize env ex =
     (let r = connect_servers env server_files ([], mcp_clients ex)
      in ex\<lparr>mcp_clients := snd r, tools := fst r, app := True\<rparr>)"

section \<open>Tool execution (\<^verbatim>\<open>LangGraphAgentExecutor.execute_tools\<close>)\<close>

text \<open>\<^verbatim>\<open>next((t for t in self.tools if t.name == tool_name), None)\<close>\<close>

definition select_tool :: "lc_tool list \<Rightarrow> string \<Rightarrow> lc_tool option" where
  "select_tool ts tool_name = find (\<lambda>t. name t = tool_name) ts"

text \<open>The value of \<^verbatim>\<open>output\<close>: the worker's result object, or an error text.\<close>

datatype 'r tool_output = Returned 'r | Text string

definition py_str :: "'r environment \<Rightarrow> 'r tool_output \<Rightarrow> string" where
  "py_str env out = (case out of Returned r \<Rightarrow> repr_result env r | Text s \<Rightarrow> s)"

text \<open>\<^verbatim>\<open>await selected_tool.coroutine(**tool_args)\<close>: the wrapper sends the request.\<close>

definition run_coroutine ::
  "'r environment \<Rightarrow> coroutine \<Rightarrow> kwargs \<Rightarrow> invocation list \<Rightarrow> (exception + 'r) \<times> invocation list" where
  "run_coroutine env co kw log =
     (let log' = log @ [CallTool (wrapper_client co) (wrapper_tool_name co) kw]
      in (call_tool env log', log'))"

text \<open>
  The body of the loop over \<^verbatim>\<open>tool_calls\<close>: the \<^verbatim>\<open>try\<close> block with its handler, then the
  \<^verbatim>\<open>ToolMessage\<close> appended to \<^verbatim>\<open>results\<close>.
\<close>

definition run_tool_call ::
  "'r environment \<Rightarrow> lc_tool list \<Rightarrow> tool_call \<Rightarrow> invocation list \<Rightarrow> message \<times> invocation list" where
  "run_tool_call env ts tc log =
     (let tool_name = call_name tc; tool_args = call_args tc; tool_id = call_id tc;
          r = (case select_tool ts tool_name of
                 Some selected_tool \<Rightarrow>
                   (case run_coroutine env (coroutine selected_tool) tool_args log of
                      (Inr res, log') \<Rightarrow> (Returned res, log')
                    | (Inl e, log') \<Rightarrow>
                        (Text (''Error executing tool '' @ tool_name @ '': '' @ str_of e), log'))
               | None \<Rightarrow> (Text (''Error: Tool '' @ tool_name @ '' not found.''), log))
      in (ToolMessage tool_id tool_name (Str (py_str env (fst r))), snd r))"

fun execute_tool_calls ::
  "'r environment \<Rightarrow> lc_tool list \<Rightarrow> tool_call list \<Rightarrow> invocation list \<Rightarrow> message list \<times> invocation list" where
  "execute_tool_calls env ts [] log = ([], log)"
| "execute_tool_calls env ts (tc # tcs) log =
     (let (m, log') = run_tool_call env ts tc log;
          (ms, log'') = execute_tool_calls env ts tcs log'
      in (m # ms, log''))"

text \<open>
  \<^verbatim>\<open>state['messages'][-1].tool_calls\<close>: an empty list of messages raises \<^verbatim>\<open>IndexError\<close>, and
  only an assistant message has the attribute.
\<close>

definition last_tool_calls :: "message list \<Rightarrow> exception + tool_call list" where
  "last_tool_calls msgs =
     (if msgs = [] then Inl (Exception ''IndexError'' ''list index out of range'')
      else case last msgs of
             AIMessage c tcs \<Rightarrow> Inr tcs
           | _ \<Rightarrow> Inl (Exception ''AttributeError'' ''tool_calls''))"

definition execute_tools ::
  "'r environment \<Rightarrow> lc_tool list \<Rightarrow> message list \<Rightarrow> invocation list
     \<Rightarrow> (exception + message list) \<times> invocation list" where
  "execute_tools env ts msgs log =
     (case last_tool_calls msgs of
        Inl e \<Rightarrow> (Inl e, log)
      | Inr tool_calls \<Rightarrow>
          (let (results, log') = execute_tool_calls env ts tool_calls log
           in (Inr results, log')))"

section \<open>The graph (\<^verbatim>\<open>call_model\<close>, \<^verbatim>\<open>should_continue\<close> and the edges of \<^verbatim>\<open>initialize\<close>)\<close>

definition call_model ::
  "'r environment \<Rightarrow> message list \<Rightarrow> message list list \<Rightarrow> (exception + message list) \<times> message list list" where
  "call_model env msgs log =
     (let log' = log @ [msgs]
      in case ainvoke env log' of
           Inl e \<Rightarrow> (Inl e, log')
         | Inr (c, tcs) \<Rightarrow> (Inr [AIMessage c tcs], log'))"

datatype branch = Continue | End

definition should_continue :: "message list \<Rightarrow> exception + branch" where
  "should_continue msgs =
     (case last_tool_calls msgs of
        Inl e \<Rightarrow> Inl e
      | Inr tcs \<Rightarrow> Inr (if tcs \<noteq> [] then Continue else End))"

text \<open>
  The compiled graph: entry point \<^verbatim>\<open>agent\<close>, the conditional edge from \<^verbatim>\<open>agent\<close> to
  \<^verbatim>\<open>tools\<close> or to the end, and the edge from \<^verbatim>\<open>tools\<close> back to \<^verbatim>\<open>agent\<close>. The channel
  \<^verbatim>\<open>messages\<close> has the reducer \<^verbatim>\<open>operator.add\<close>: what a node returns is appended. The first
  argument counts the node executions still allowed.
\<close>

datatype node = Agent | Tools

fun run_graph ::
  "'r environment \<Rightarrow> lc_tool list \<Rightarrow> nat \<Rightarrow> node \<Rightarrow> message list \<Rightarrow> trace
     \<Rightarrow> (exception + message list) \<times> trace" where
  "run_graph env ts 0 nd msgs tr =
     (Inl (Exception ''GraphRecursionError'' ''Recursion limit reached''), tr)"
| "run_graph env ts (Suc n) Agent msgs tr =
     (case call_model env msgs (llm_log tr) of
        (Inl e, l) \<Rightarrow> (Inl e, tr\<lparr>llm_log := l\<rparr>)
      | (Inr upd, l) \<Rightarrow>
          (let msgs' = msgs @ upd; tr' = tr\<lparr>llm_log := l\<rparr>
           in case should_continue msgs' of
                Inl e \<Rightarrow> (Inl e, tr')
              | Inr Continue \<Rightarrow> run_graph env ts n Tools msgs' tr'
              | Inr End \<Rightarrow> (Inr msgs', tr')))"
| "run_graph env ts (Suc n) Tools msgs tr =
     (case execute_tools env ts msgs (tool_log tr) of
        (Inl e, l) \<Rightarrow> (Inl e, tr\<lparr>tool_log := l\<rparr>)
      | (Inr upd, l) \<Rightarrow> run_graph env ts n Agent (msgs @ upd) (tr\<lparr>tool_log := l\<rparr>))"

section \<open>A request (\<^verbatim>\<open>LangGraphAgentExecutor.invoke\<close>)\<close>

text \<open>
  \<^verbatim>\<open>invoke\<close> up to the update of \<^verbatim>\<open>self.conversation_history\<close>. The first component is the
  exception the handler turns into the reply, or the last message of the final state, from
  whose content the reply text is taken (the formatting of the reply is not modelled).
\<close>

definition invoke ::
  "'r environment \<Rightarrow> string \<Rightarrow> executor \<times> trace \<Rightarrow> (exception + message) \<times> executor \<times> trace" where
  "invoke env user_input s =
     (let ex0 = (if \<not> app (fst s) then initialize env (fst s) else fst s);
          ex1 = ex0\<lparr>conversation_history :=
                      conversation_history ex0 @ [HumanMessage (Str user_input)]\<rparr>;
          initial_state = conversation_history ex1
      in case run_graph env (tools ex1) (recursion_limit env) Agent initial_state (snd s) of
           (Inl e, tr') \<Rightarrow> (Inl e, ex1, tr')
         | (Inr final_state, tr') \<Rightarrow>
             (if final_state = []
              then (Inl (Exception ''IndexError'' ''list index out of range''), ex1, tr')
              else (Inr (last final_state),
                    ex1\<lparr>conversation_history :=
                          conversation_history ex1
                          @ drop (length (conversation_history ex1)) final_state\<rparr>,
                    tr')))"

text \<open>A session: the requests of a list of user inputs, one after the other.\<close>

fun submit_all :: "'r environment \<Rightarrow> string list \<Rightarrow> executor \<times> trace \<Rightarrow> executor \<times> trace" where
  "submit_all env [] s = s"
| "submit_all env (u # us) s = submit_all env us (snd (invoke env u s))"

text \<open>\<^verbatim>\<open>__init__\<close>: no graph yet, no client, the history seeded with the system prompt.\<close>

definition new_executor :: "string \<Rightarrow> executor" where
  "new_executor system_prompt =
     \<lparr>app = False, mcp_clients = [], tools = [],
      conversation_history = [SystemMessage (Str system_prompt)]\<rparr>"

section \<open>Predicates on histories and request traces\<close>

text \<open>The call a message answers, when the message is a tool observation.\<close>

fun observation_id :: "message \<Rightarrow> string option" where
  "observation_id (ToolMessage i n c) = Some i"
| "observation_id m = None"

text \<open>
  Two successive requests \<open>h\<close> and \<open>h'\<close> to the decision client: \<open>h'\<close> is \<open>h\<close>, then the
  assistant message answered to \<open>h\<close> with its tool calls, then one observation for each of
  these calls and nothing else, in the order of the calls and with their ids.
\<close>

definition turn_resolved :: "message list \<Rightarrow> message list \<Rightarrow> bool" where
  "turn_resolved h h' =
     (take (length h) h' = h \<and>
      (case drop (length h) h' of
         AIMessage c tcs # obs \<Rightarrow>
           tcs \<noteq> [] \<and> map observation_id obs = map (\<lambda>tc. Some (call_id tc)) tcs
       | _ \<Rightarrow> False))"

text \<open>
  What a run of the graph adds to the history: assistant messages, and tool observations
  whose content is a string.
\<close>

fun turn_message :: "message \<Rightarrow> bool" where
  "turn_message (AIMessage c tcs) = True"
| "turn_message (ToolMessage i n (Str s)) = True"
| "turn_message m = False"

section \<open>A concrete environment\<close>

text \<open>
  Tools as the workers of the repository could declare them, and an environment in which
  the maintenance server fails to start, two servers declare \<^verbatim>\<open>get_active_connections\<close>,
  \<^verbatim>\<open>get_cpu_info\<close> times out, and the decision client first asks for two tools and then
  answers.
\<close>

definition cpu_info :: tool_info where
  "cpu_info = \<lparr>info_name = ''get_cpu_info'', info_description = ''Get CPU information.'',
                inputSchema = \<lparr>properties = Some [], required = None\<rparr>\<rparr>"

definition connections_info :: tool_info where
  "connections_info =
     \<lparr>info_name = ''get_active_connections'', info_description = ''List active connections.'',
      inputSchema = \<lparr>properties = Some [], required = None\<rparr>\<rparr>"

definition auth_logs_info :: tool_info where
  "auth_logs_info =
     \<lparr>info_name = ''get_auth_logs'', info_description = ''Recent authentication logs.'',
      inputSchema = \<lparr>properties = Some [(''count'', [(''title'', JStr ''Count''),
                                                           (''type'', JStr ''integer'')])],
                      required = Some [''count'']\<rparr>\<rparr>"

definition heavy_processes_info :: tool_info where
  "heavy_processes_info =
     \<lparr>info_name = ''get_heavy_processes'', info_description = ''Top processes.'',
      inputSchema = \<lparr>properties = Some [(''count'', [(''default'', JInt 5),
                                                           (''title'', JStr ''Count''),
                                                           (''type'', JStr ''integer'')])],
                      required = None\<rparr>\<rparr>"

definition demo_calls :: "tool_call list" where
  "demo_calls = [ToolCall ''get_cpu_info'' [] ''call_1'',
                 ToolCall ''get_active_connections'' [] ''call_2'']"

definition demo_env :: "string environment" where
  "demo_env =
     \<lparr>connect = (\<lambda>f. if f = ''maintenance_server.py''
                      then Some (Exception ''ConnectionError'' ''spawn failed'') else None),
      list_tools = (\<lambda>f. if f = ''computer_info_server.py'' then Inr [cpu_info, connections_info]
                         else if f = ''security_server.py'' then Inr [connections_info, auth_logs_info]
                         else Inr [heavy_processes_info]),
      call_tool = (\<lambda>log. case last log of
                            CallTool srv n kw \<Rightarrow>
                              if n = ''get_cpu_info''
                              then Inl (Exception ''TimeoutError'' ''timed out'')
                              else Inr (''reply of '' @ srv)),
      repr_result = (\<lambda>r. r),
      ainvoke = (\<lambda>log. if length log = 1 then Inr (Str [], demo_calls)
                        else Inr (Str ''report'', [])),
      recursion_limit = 25\<rparr>"

definition demo_tools :: "lc_tool list" where
  "demo_tools = map (make_tool ''computer_info_server.py'') [cpu_info, connections_info]
              @ map (make_tool ''security_server.py'') [connections_info, auth_logs_info]"

text \<open>A fresh executor and an empty record of requests.\<close>

definition demo_start :: "executor \<times> trace" where
  "demo_start = (new_executor ''You are an auditor'', \<lparr>tool_log = [], llm_log = []\<rparr>)"

section \<open>Schema compilation: optional parameters\<close>








section \<open>Tool execution: one result per call\<close>

lemma run_tool_call_not_found:
  "select_tool ts (call_name tc) = None \<Longrightarrow>
   run_tool_call env ts tc log =
     (ToolMessage (call_id tc) (call_name tc)
        (Str (''Error: Tool '' @ call_name tc @ '' not found.'')), log)"
  by (simp add: run_tool_call_def py_str_def Let_def)

lemma run_tool_call_found:
  "select_tool ts (call_name tc) = Some t \<Longrightarrow>
   run_tool_call env ts tc log =
     (let log' = log @ [CallTool (wrapper_client (coroutine t)) (wrapper_tool_name (coroutine t))
                          (call_args tc)]
      in (ToolMessage (call_id tc) (call_name tc)
            (Str (case call_tool env log' of
                    Inr res \<Rightarrow> repr_result env res
                  | Inl e \<Rightarrow> ''Error executing tool '' @ call_name tc @ '': '' @ str_of e)),
          log'))"
  by (simp add: run_tool_call_def run_coroutine_def py_str_def Let_def split: sum.split)

lemma execute_tool_calls_append:
  "execute_tool_calls env ts (xs @ ys) log =
     (let (rx, l1) = execute_tool_calls env ts xs log;
          (ry, l2) = execute_tool_calls env ts ys l1
      in (rx @ ry, l2))"
  by (induction xs arbitrary: log) (simp_all add: split_beta Let_def)

lemma execute_tool_calls_observations:
  "map observation_id (fst (execute_tool_calls env ts tcs log)) = map (\<lambda>tc. Some (call_id tc)) tcs"
  by (induction tcs arbitrary: log) (simp_all add: split_beta Let_def run_tool_call_def)

lemma execute_tool_calls_turn_messages:
  "list_all turn_message (fst (execute_tool_calls env ts tcs log))"
  by (induction tcs arbitrary: log) (simp_all add: split_beta Let_def run_tool_call_def)

lemma last_tool_calls_AI: "last_tool_calls (h @ [AIMessage c tcs]) = Inr tcs"
  by (simp add: last_tool_calls_def)

lemma execute_tools_AI:
  "execute_tools env ts (h @ [AIMessage c tcs]) log =
     (Inr (fst (execute_tool_calls env ts tcs log)), snd (execute_tool_calls env ts tcs log))"
  by (simp add: execute_tools_def last_tool_calls_AI split_beta)

lemma should_continue_AI:
  "should_continue (h @ [AIMessage c tcs]) = Inr (if tcs \<noteq> [] then Continue else End)"
  by (simp add: should_continue_def last_tool_calls_AI)

lemma select_tool_demo:
  "select_tool demo_tools ''get_cpu_info'' = Some (make_tool ''computer_info_server.py'' cpu_info)"
  "select_tool demo_tools ''get_active_connections''
     = Some (make_tool ''computer_info_server.py'' connections_info)"
  "select_tool demo_tools ''get_auth_logs'' = Some (make_tool ''security_server.py'' auth_logs_info)"
  "select_tool demo_tools ''format_disk'' = None"
  by (simp_all add: select_tool_def demo_tools_def make_tool_def cpu_info_def connections_info_def
      auth_logs_info_def Let_def)

lemma coroutine_make_tool: "coroutine (make_tool srv ti) = ToolWrapper srv (info_name ti)"
  by (simp add: make_tool_def Let_def)

text \<open>
  C5. A tool call whose name no registered tool has gets the observation
  \<^verbatim>\<open>Error: Tool <name> not found.\<close> at its place among the results of the turn; no request is
  sent to any worker for it (the calls after it start from the request log the calls
  before it left), and the node returns its results: no exception leaves it.
\<close>

theorem unknown_tool_error_result:
  assumes "select_tool ts (call_name tc) = None"
  shows "execute_tools env ts (h @ [AIMessage c (xs @ tc # ys)]) log =
     (let (rx, l1) = execute_tool_calls env ts xs log;
          (ry, l2) = execute_tool_calls env ts ys l1
      in (Inr (rx @ ToolMessage (call_id tc) (call_name tc)
                      (Str (''Error: Tool '' @ call_name tc @ '' not found.'')) # ry), l2))"
  by (simp add: execute_tools_AI execute_tool_calls_append run_tool_call_not_found[OF assms]
      split_beta Let_def)

theorem unknown_tool_error_result_witness:
  "select_tool demo_tools (call_name (ToolCall ''format_disk'' [] ''call_9'')) = None
   \<and> execute_tools demo_env demo_tools
        [HumanMessage (Str ''clean up''), AIMessage (Str []) [ToolCall ''format_disk'' [] ''call_9'']]
        []
     = (Inr [ToolMessage ''call_9'' ''format_disk'' (Str ''Error: Tool format_disk not found.'')],
        [])"
proof -
  have h: "select_tool demo_tools (call_name (ToolCall ''format_disk'' [] ''call_9'')) = None"
    by (simp add: select_tool_demo)
  from unknown_tool_error_result[OF h, of demo_env "[HumanMessage (Str ''clean up'')]" "Str []"
      "[]" "[]" "[]"] h
  show ?thesis by simp
qed

text \<open>
  C3. The arguments of a tool call are not checked against the contract of the tool: the
  request sent to the worker carries the argument mapping of the call as it is, with every
  argument the schema does not declare.
\<close>

theorem undeclared_arguments_forwarded:
  assumes "select_tool ts (call_name tc) = Some t"
  shows "snd (run_tool_call env ts tc log) =
           log @ [CallTool (wrapper_client (coroutine t)) (wrapper_tool_name (coroutine t))
                    (call_args tc)]
       \<and> fst (run_tool_call env ts tc log) =
           ToolMessage (call_id tc) (call_name tc)
             (Str (case call_tool env (snd (run_tool_call env ts tc log)) of
                     Inr res \<Rightarrow> repr_result env res
                   | Inl e \<Rightarrow> ''Error executing tool '' @ call_name tc @ '': '' @ str_of e))"
  by (simp add: run_tool_call_found[OF assms] Let_def)

theorem undeclared_arguments_forwarded_witness:
  "select_tool demo_tools ''get_auth_logs'' = Some (make_tool ''security_server.py'' auth_logs_info)
   \<and> map fst (model_fields (the (args_schema (make_tool ''security_server.py'' auth_logs_info))))
       = [''count'']
   \<and> run_tool_call demo_env demo_tools
        (ToolCall ''get_auth_logs'' [(''count'', JInt 3), (''verbose'', JBool True)] ''call_3'') []
     = (ToolMessage ''call_3'' ''get_auth_logs'' (Str ''reply of security_server.py''),
        [CallTool ''security_server.py'' ''get_auth_logs''
           [(''count'', JInt 3), (''verbose'', JBool True)]])"
proof -
  let ?tc = "ToolCall ''get_auth_logs'' [(''count'', JInt 3), (''verbose'', JBool True)] ''call_3''"
  have h: "select_tool demo_tools (call_name ?tc)
             = Some (make_tool ''security_server.py'' auth_logs_info)"
    by (simp add: select_tool_demo)
  have f: "map fst (model_fields (the (args_schema (make_tool ''security_server.py'' auth_logs_info))))
             = [''count'']"
    by (simp add: make_tool_def auth_logs_info_def compile_fields_def add_field_def Let_def)
  from undeclared_arguments_forwarded[OF h, of demo_env "[]"]
  have "run_tool_call demo_env demo_tools ?tc []
     = (ToolMessage ''call_3'' ''get_auth_logs'' (Str ''reply of security_server.py''),
        [CallTool ''security_server.py'' ''get_auth_logs''
           [(''count'', JInt 3), (''verbose'', JBool True)]])"
    by (simp add: prod_eq_iff coroutine_make_tool auth_logs_info_def demo_env_def)
  with h f show ?thesis by simp
qed



section \<open>The graph: every call answered before the next decision\<close>

lemma turn_resolved_step:
  "tcs \<noteq> [] \<Longrightarrow>
   turn_resolved h (h @ AIMessage c tcs # fst (execute_tool_calls env ts tcs log))"
  by (simp add: turn_resolved_def execute_tool_calls_observations)

text \<open>
  The requests a run of the graph sends to the decision client, from either node: each
  request after the first resolves the turn of the request before it.
\<close>

lemma run_graph_requests:
  "\<exists>reqs. llm_log (snd (run_graph env ts n nd msgs tr)) = llm_log tr @ reqs
      \<and> successively turn_resolved reqs
      \<and> (case nd of
           Agent \<Rightarrow> reqs = [] \<or> hd reqs = msgs
         | Tools \<Rightarrow> (\<forall>h c tcs. msgs = h @ [AIMessage c tcs] \<and> tcs \<noteq> []
                       \<longrightarrow> reqs = [] \<or> turn_resolved h (hd reqs)))"
proof (induction n arbitrary: nd msgs tr)
  case 0
  show ?case by (cases nd) simp_all
next
  case (Suc n)
  show ?case
  proof (cases nd)
    case Agent
    show ?thesis
    proof (cases "ainvoke env (llm_log tr @ [msgs])")
      case (Inl e)
      then show ?thesis using Agent
        by (simp add: call_model_def Let_def)
    next
      case (Inr p)
      obtain c tcs where p: "p = (c, tcs)" by (cases p)
      show ?thesis
      proof (cases "tcs = []")
        case True
        then show ?thesis using Agent Inr p
          by (simp add: call_model_def Let_def should_continue_AI)
      next
        case False
        let ?tr = "tr\<lparr>llm_log := llm_log tr @ [msgs]\<rparr>"
        from Suc.IH[of Tools "msgs @ [AIMessage c tcs]" ?tr]
        obtain reqs where r: "llm_log (snd (run_graph env ts n Tools (msgs @ [AIMessage c tcs]) ?tr))
              = llm_log ?tr @ reqs" "successively turn_resolved reqs"
            "reqs = [] \<or> turn_resolved msgs (hd reqs)"
          using False by auto
        have run: "run_graph env ts (Suc n) Agent msgs tr
                 = run_graph env ts n Tools (msgs @ [AIMessage c tcs]) ?tr"
          using Inr p False by (simp add: call_model_def Let_def should_continue_AI)
        have "successively turn_resolved (msgs # reqs)"
          using r(2,3) by (auto simp: successively_Cons)
        then show ?thesis using Agent run r(1) by auto
      qed
    qed
  next
    case Tools
    show ?thesis
    proof (cases "last_tool_calls msgs")
      case (Inl e)
      then show ?thesis using Tools
        by (simp add: execute_tools_def)
    next
      case (Inr tool_calls)
      let ?res = "fst (execute_tool_calls env ts tool_calls (tool_log tr))"
      let ?tr = "tr\<lparr>tool_log := snd (execute_tool_calls env ts tool_calls (tool_log tr))\<rparr>"
      have run: "run_graph env ts (Suc n) Tools msgs tr = run_graph env ts n Agent (msgs @ ?res) ?tr"
        using Inr by (simp add: execute_tools_def split_beta)
      from Suc.IH[of Agent "msgs @ ?res" ?tr]
      obtain reqs where r: "llm_log (snd (run_graph env ts n Agent (msgs @ ?res) ?tr))
              = llm_log ?tr @ reqs" "successively turn_resolved reqs"
            "reqs = [] \<or> hd reqs = msgs @ ?res"
        by auto
      have "reqs = [] \<or> turn_resolved h (hd reqs)"
        if "msgs = h @ [AIMessage c tcs]" "tcs \<noteq> []" for h c tcs
      proof -
        from that(1) Inr have "tool_calls = tcs" by (simp add: last_tool_calls_AI)
        then show ?thesis using r(3) that turn_resolved_step[of tcs h c env ts "tool_log tr"]
          by auto
      qed
      then show ?thesis using Tools run r(1,2) by auto
    qed
  qed
qed

text \<open>From the entry point, the first request is the history the run starts from.\<close>

lemma run_graph_agent_requests:
  "\<exists>rest. llm_log (snd (run_graph env ts (Suc n) Agent msgs tr)) = llm_log tr @ msgs # rest
      \<and> successively turn_resolved (msgs # rest)"
proof (cases "ainvoke env (llm_log tr @ [msgs])")
  case (Inl e)
  then show ?thesis by (simp add: call_model_def Let_def)
next
  case (Inr p)
  obtain c tcs where p: "p = (c, tcs)" by (cases p)
  show ?thesis
  proof (cases "tcs = []")
    case True
    then show ?thesis using Inr p
      by (simp add: call_model_def Let_def should_continue_AI)
  next
    case False
    let ?tr = "tr\<lparr>llm_log := llm_log tr @ [msgs]\<rparr>"
    from run_graph_requests[of env ts n Tools "msgs @ [AIMessage c tcs]" ?tr]
    obtain reqs where r: "llm_log (snd (run_graph env ts n Tools (msgs @ [AIMessage c tcs]) ?tr))
          = llm_log ?tr @ reqs" "successively turn_resolved reqs"
        "reqs = [] \<or> turn_resolved msgs (hd reqs)"
      using False by auto
    have run: "run_graph env ts (Suc n) Agent msgs tr
             = run_graph env ts n Tools (msgs @ [AIMessage c tcs]) ?tr"
      using Inr p False by (simp add: call_model_def Let_def should_continue_AI)
    have "successively turn_resolved (msgs # reqs)"
      using r(2,3) by (auto simp: successively_Cons)
    then show ?thesis using run r(1) by auto
  qed
qed

text \<open>
  C1. The tool-execution step returns exactly one \<^verbatim>\<open>ToolMessage\<close> for each tool call of the
  assistant message it is given, carrying the id of its call, in the order of the calls.
  In a run of the graph from its entry point, the first request to the decision client is
  the history the run starts from, and every later request is the request before it,
  extended by the assistant message answered to that request, which has tool calls, and by
  these observations and nothing else. So the client is never asked again while a call of
  the turn has no result.
\<close>

theorem every_tool_call_resolved_before_next_decision:
  "(\<exists>results. fst (execute_tools env ts (h @ [AIMessage c tcs]) log) = Inr results
       \<and> map observation_id results = map (\<lambda>tc. Some (call_id tc)) tcs)
   \<and> (\<exists>rest. llm_log (snd (run_graph env ts (Suc n) Agent msgs tr)) = llm_log tr @ msgs # rest
          \<and> successively turn_resolved (msgs # rest))"
  using run_graph_agent_requests[of env ts n msgs tr]
    execute_tool_calls_observations[of env ts tcs log]
  by (simp add: execute_tools_AI)

theorem every_tool_call_resolved_before_next_decision_witness:
  "llm_log (snd (run_graph demo_env demo_tools (Suc 24) Agent [HumanMessage (Str ''check my PC'')]
                   \<lparr>tool_log = [], llm_log = []\<rparr>))
     = [[HumanMessage (Str ''check my PC'')],
        [HumanMessage (Str ''check my PC''),
         AIMessage (Str []) demo_calls,
         ToolMessage ''call_1'' ''get_cpu_info''
           (Str ''Error executing tool get_cpu_info: timed out''),
         ToolMessage ''call_2'' ''get_active_connections''
           (Str ''reply of computer_info_server.py'')]]
   \<and> turn_resolved [HumanMessage (Str ''check my PC'')]
        [HumanMessage (Str ''check my PC''),
         AIMessage (Str []) demo_calls,
         ToolMessage ''call_1'' ''get_cpu_info''
           (Str ''Error executing tool get_cpu_info: timed out''),
         ToolMessage ''call_2'' ''get_active_connections''
           (Str ''reply of computer_info_server.py'')]
   \<and> \<not> turn_resolved [HumanMessage (Str ''check my PC'')]
        [HumanMessage (Str ''check my PC''),
         AIMessage (Str []) demo_calls,
         ToolMessage ''call_1'' ''get_cpu_info''
           (Str ''Error executing tool get_cpu_info: timed out'')]"
proof -
  let ?h = "[HumanMessage (Str ''check my PC'')]"
  let ?h' = "[HumanMessage (Str ''check my PC''),
         AIMessage (Str []) demo_calls,
         ToolMessage ''call_1'' ''get_cpu_info''
           (Str ''Error executing tool get_cpu_info: timed out''),
         ToolMessage ''call_2'' ''get_active_connections''
           (Str ''reply of computer_info_server.py'')]"
  let ?tr = "\<lparr>tool_log = [], llm_log = []\<rparr>"
  have run: "llm_log (snd (run_graph demo_env demo_tools (Suc 24) Agent ?h ?tr)) = [?h, ?h']"
    by code_simp
  from every_tool_call_resolved_before_next_decision[of demo_env demo_tools "[]" "Str []" "[]" "[]"
      24 ?h ?tr]
  obtain rest where r: "llm_log (snd (run_graph demo_env demo_tools (Suc 24) Agent ?h ?tr))
                       = llm_log ?tr @ ?h # rest"
      and s: "successively turn_resolved (?h # rest)"
    by blast
  from r have "[?h, ?h'] = llm_log ?tr @ ?h # rest"
    unfolding run .
  then have "rest = [?h']"
    by (simp del: run_graph.simps)
  with s have t: "turn_resolved ?h ?h'"
    by (simp del: run_graph.simps)
  have n: "\<not> turn_resolved ?h
        [HumanMessage (Str ''check my PC''),
         AIMessage (Str []) demo_calls,
         ToolMessage ''call_1'' ''get_cpu_info''
           (Str ''Error executing tool get_cpu_info: timed out'')]"
    by (simp add: turn_resolved_def demo_calls_def)
  from run t n show ?thesis by blast
qed

section \<open>Requests: the history only grows\<close>

text \<open>A run of the graph that ends returns the messages it started from, then new ones.\<close>

lemma run_graph_appends:
  "fst (run_graph env ts n nd msgs tr) = Inr final \<Longrightarrow>
   \<exists>new. final = msgs @ new \<and> list_all turn_message new"
proof (induction n arbitrary: nd msgs tr)
  case 0
  then show ?case by simp
next
  case (Suc n)
  show ?case
  proof (cases nd)
    case Agent
    show ?thesis
    proof (cases "ainvoke env (llm_log tr @ [msgs])")
      case (Inl e)
      then show ?thesis using Agent Suc.prems
        by (simp add: call_model_def Let_def)
    next
      case (Inr p)
      obtain c tcs where p: "p = (c, tcs)" by (cases p)
      show ?thesis
      proof (cases "tcs = []")
        case True
        then show ?thesis using Agent Inr p Suc.prems
          by (auto simp add: call_model_def Let_def should_continue_AI)
      next
        case False
        let ?tr = "tr\<lparr>llm_log := llm_log tr @ [msgs]\<rparr>"
        have run: "run_graph env ts (Suc n) Agent msgs tr
                 = run_graph env ts n Tools (msgs @ [AIMessage c tcs]) ?tr"
          using Inr p False by (simp add: call_model_def Let_def should_continue_AI)
        with Suc.prems Agent
        have "fst (run_graph env ts n Tools (msgs @ [AIMessage c tcs]) ?tr) = Inr final" by simp
        from Suc.IH[OF this] obtain new where
          "final = (msgs @ [AIMessage c tcs]) @ new" "list_all turn_message new" by blast
        then have "final = msgs @ (AIMessage c tcs # new)
                     \<and> list_all turn_message (AIMessage c tcs # new)"
          by simp
        then show ?thesis by blast
      qed
    qed
  next
    case Tools
    show ?thesis
    proof (cases "last_tool_calls msgs")
      case (Inl e)
      then show ?thesis using Tools Suc.prems
        by (simp add: execute_tools_def)
    next
      case (Inr tool_calls)
      let ?res = "fst (execute_tool_calls env ts tool_calls (tool_log tr))"
      let ?tr = "tr\<lparr>tool_log := snd (execute_tool_calls env ts tool_calls (tool_log tr))\<rparr>"
      have run: "run_graph env ts (Suc n) Tools msgs tr = run_graph env ts n Agent (msgs @ ?res) ?tr"
        using Inr by (simp add: execute_tools_def split_beta)
      with Suc.prems Tools
      have "fst (run_graph env ts n Agent (msgs @ ?res) ?tr) = Inr final" by simp
      from Suc.IH[OF this] obtain new where
        "final = (msgs @ ?res) @ new" "list_all turn_message new" by blast
      then have "final = msgs @ (?res @ new) \<and> list_all turn_message (?res @ new)"
        by (simp add: execute_tool_calls_turn_messages)
      then show ?thesis by blast
    qed
  qed
qed

lemma initialize_history: "conversation_history (initialize env ex) = conversation_history ex"
  by (simp add: initialize_def Let_def)

lemma invoke_history:
  "\<exists>new. conversation_history (fst (snd (invoke env u s)))
            = conversation_history (fst s) @ HumanMessage (Str u) # new
        \<and> list_all turn_message new"
proof -
  define ex0 where "ex0 = (if \<not> app (fst s) then initialize env (fst s) else fst s)"
  define ex1 where "ex1 = ex0\<lparr>conversation_history :=
                      conversation_history ex0 @ [HumanMessage (Str u)]\<rparr>"
  define r where "r = run_graph env (tools ex1) (recursion_limit env) Agent
                        (conversation_history ex1) (snd s)"
  have h0: "conversation_history ex0 = conversation_history (fst s)"
    by (simp add: ex0_def initialize_history)
  have h1: "conversation_history ex1 = conversation_history (fst s) @ [HumanMessage (Str u)]"
    by (simp add: ex1_def h0)
  have inv: "invoke env u s =
     (case r of
        (Inl e, tr') \<Rightarrow> (Inl e, ex1, tr')
      | (Inr final_state, tr') \<Rightarrow>
          (if final_state = []
           then (Inl (Exception ''IndexError'' ''list index out of range''), ex1, tr')
           else (Inr (last final_state),
                 ex1\<lparr>conversation_history :=
                       conversation_history ex1
                       @ drop (length (conversation_history ex1)) final_state\<rparr>,
                 tr')))"
    unfolding invoke_def Let_def ex0_def ex1_def r_def by (rule refl)
  show ?thesis
  proof (cases "fst r")
    case (Inl e)
    then have "fst (snd (invoke env u s)) = ex1"
      by (cases r) (auto simp: inv)
    then show ?thesis using h1 by simp
  next
    case (Inr final)
    from run_graph_appends[of env "tools ex1" "recursion_limit env" Agent
        "conversation_history ex1" "snd s" final] Inr
    obtain new where n: "final = conversation_history ex1 @ new" "list_all turn_message new"
      unfolding r_def by blast
    have "conversation_history (fst (snd (invoke env u s)))
            = conversation_history ex1 @ drop (length (conversation_history ex1)) final"
      using Inr by (cases r) (auto simp: inv)
    then show ?thesis using n h1 by simp
  qed
qed

lemma submit_all_append:
  "submit_all env (us @ vs) s = submit_all env vs (submit_all env us s)"
  by (induction us arbitrary: s) simp_all

lemma submit_all_prefix:
  "prefix (conversation_history (fst s)) (conversation_history (fst (submit_all env us s)))"
proof (induction us arbitrary: s)
  case Nil
  show ?case by simp
next
  case (Cons u us)
  from invoke_history[of env u s]
  have "prefix (conversation_history (fst s)) (conversation_history (fst (snd (invoke env u s))))"
    by (auto simp: prefix_def)
  then show ?case using Cons.IH[of "snd (invoke env u s)"] by (auto intro: prefix_order.trans)
qed

lemma invoke_first_request:
  "recursion_limit env = 0
   \<or> (\<exists>rest. llm_log (snd (snd (invoke env u s)))
               = llm_log (snd s) @ (conversation_history (fst s) @ [HumanMessage (Str u)]) # rest)"
proof (cases "recursion_limit env")
  case 0
  then show ?thesis by simp
next
  case (Suc n)
  define ex0 where "ex0 = (if \<not> app (fst s) then initialize env (fst s) else fst s)"
  define ex1 where "ex1 = ex0\<lparr>conversation_history :=
                      conversation_history ex0 @ [HumanMessage (Str u)]\<rparr>"
  define r where "r = run_graph env (tools ex1) (Suc n) Agent (conversation_history ex1) (snd s)"
  have h1: "conversation_history ex1 = conversation_history (fst s) @ [HumanMessage (Str u)]"
    by (simp add: ex1_def ex0_def initialize_history)
  have "snd (snd (invoke env u s)) = snd r"
    unfolding invoke_def Let_def ex0_def ex1_def r_def Suc
    by (auto split: prod.split sum.split)
  moreover from run_graph_agent_requests[of env "tools ex1" n "conversation_history ex1" "snd s"]
  obtain rest where "llm_log (snd r) = llm_log (snd s) @ conversation_history ex1 # rest"
    unfolding r_def by blast
  ultimately show ?thesis using h1 by simp
qed

text \<open>
  C8. A request leaves the history recorded so far as it is and appends the user message,
  then the assistant messages and tool observations of the run (nothing when the run
  fails); unless the graph runtime allows no step at all, the decision client is asked
  first with exactly the recorded history and the user message; and over any sequence of
  inputs, the history after the first inputs is a prefix of the history after all of them.
\<close>

theorem conversation_history_append_only:
  "(\<exists>new. conversation_history (fst (snd (invoke env u s)))
             = conversation_history (fst s) @ HumanMessage (Str u) # new
         \<and> list_all turn_message new)
   \<and> (recursion_limit env = 0
        \<or> (\<exists>rest. llm_log (snd (snd (invoke env u s)))
               = llm_log (snd s) @ (conversation_history (fst s) @ [HumanMessage (Str u)]) # rest))
   \<and> prefix (conversation_history (fst (submit_all env us s)))
        (conversation_history (fst (submit_all env (us @ vs) s)))"
  using invoke_history[of env u s] invoke_first_request[of env u s]
    submit_all_prefix[of "submit_all env us s" env vs]
  by (simp add: submit_all_append)

theorem conversation_history_append_only_witness:
  "conversation_history (fst (submit_all demo_env [''check my PC''] demo_start))
     = [SystemMessage (Str ''You are an auditor''),
        HumanMessage (Str ''check my PC''),
        AIMessage (Str []) demo_calls,
        ToolMessage ''call_1'' ''get_cpu_info''
          (Str ''Error executing tool get_cpu_info: timed out''),
        ToolMessage ''call_2'' ''get_active_connections''
          (Str ''reply of computer_info_server.py''),
        AIMessage (Str ''report'') []]
   \<and> conversation_history (fst (submit_all demo_env [''check my PC'', ''thanks''] demo_start))
     = conversation_history (fst (submit_all demo_env [''check my PC''] demo_start))
       @ [HumanMessage (Str ''thanks''), AIMessage (Str ''report'') []]
   \<and> prefix (conversation_history (fst (submit_all demo_env [''check my PC''] demo_start)))
        (conversation_history
           (fst (submit_all demo_env ([''check my PC''] @ [''thanks'']) demo_start)))"
proof -
  have a: "conversation_history (fst (submit_all demo_env [''check my PC''] demo_start))
     = [SystemMessage (Str ''You are an auditor''),
        HumanMessage (Str ''check my PC''),
        AIMessage (Str []) demo_calls,
        ToolMessage ''call_1'' ''get_cpu_info''
          (Str ''Error executing tool get_cpu_info: timed out''),
        ToolMessage ''call_2'' ''get_active_connections''
          (Str ''reply of computer_info_server.py''),
        AIMessage (Str ''report'') []]"
    by code_simp
  have b: "conversation_history (fst (submit_all demo_env [''check my PC'', ''thanks''] demo_start))
     = conversation_history (fst (submit_all demo_env [''check my PC''] demo_start))
       @ [HumanMessage (Str ''thanks''), AIMessage (Str ''report'') []]"
    by code_simp
  from conversation_history_append_only[of demo_env "''thanks''" demo_start
      "[''check my PC'']" "[''thanks'']"]
  have "prefix (conversation_history (fst (submit_all demo_env [''check my PC''] demo_start)))
        (conversation_history
           (fst (submit_all demo_env ([''check my PC''] @ [''thanks'']) demo_start)))"
    by blast
  with a b show ?thesis by blast
qed



section \<open>Initialisation: workers that fail, names that collide\<close>


lemma connect_server_ok:
  "connect env f = None \<Longrightarrow> list_tools env f = Inr infos \<Longrightarrow>
   connect_server env f acc = (fst acc @ map (make_tool f) infos, snd acc @ [f])"
  by (simp add: connect_server_def get_tools_def)


lemma connect_server_extends: "\<exists>new. fst (connect_server env f acc) = fst acc @ new"
  by (simp add: connect_server_def split: option.split sum.split)

lemma connect_servers_extends: "\<exists>new. fst (connect_servers env files acc) = fst acc @ new"
  unfolding connect_servers_def
proof (induction files arbitrary: acc)
  case Nil
  show ?case by simp
next
  case (Cons f files)
  obtain n1 where "fst (connect_server env f acc) = fst acc @ n1"
    using connect_server_extends by blast
  moreover obtain n2 where "fst (fold (connect_server env) files (connect_server env f acc))
                              = fst (connect_server env f acc) @ n2"
    using Cons.IH by blast
  ultimately show ?case by simp
qed



lemma select_tool_append:
  "select_tool (ts @ us) n = (case select_tool ts n of Some t \<Rightarrow> Some t | None \<Rightarrow> select_tool us n)"
  by (induction ts) (simp_all add: select_tool_def)

lemma demo_initialize:
  "tools (initialize demo_env (new_executor p)) = demo_tools"
  "mcp_clients (initialize demo_env (new_executor p))
     = [''computer_info_server.py'', ''security_server.py'']"
  by (simp_all add: initialize_def connect_servers_def connect_server_def server_files_def
      demo_env_def get_tools_def demo_tools_def new_executor_def)



text \<open>
  C2, as the code has it. Registering the tools of a worker that connected never fails and
  checks no name: all its tools are appended to the tool list, also those whose name is
  already there. A name that resolved to a tool before keeps resolving to that tool, after
  this registration and after all later ones: the first registered tool wins.
\<close>

theorem first_registration_wins:
  assumes "connect env f = None"
    and "list_tools env f = Inr infos"
    and "select_tool ts n = Some t"
  shows "fst (connect_server env f (ts, cs)) = ts @ map (make_tool f) infos
     \<and> select_tool (fst (connect_server env f (ts, cs))) n = Some t
     \<and> select_tool (fst (connect_servers env files (ts, cs))) n = Some t"
proof -
  have a: "fst (connect_server env f (ts, cs)) = ts @ map (make_tool f) infos"
    using connect_server_ok[OF assms(1,2), of "(ts, cs)"] by simp
  have b: "select_tool (ts @ new) n = Some t" for new
    using assms(3) by (simp add: select_tool_append)
  obtain new where "fst (connect_servers env files (ts, cs)) = ts @ new"
    using connect_servers_extends[of env files "(ts, cs)"] by auto
  with a b show ?thesis by simp
qed

theorem first_registration_wins_witness:
  "connect demo_env ''security_server.py'' = None
   \<and> list_tools demo_env ''security_server.py'' = Inr [connections_info, auth_logs_info]
   \<and> select_tool (map (make_tool ''computer_info_server.py'') [cpu_info, connections_info])
        ''get_active_connections'' = Some (make_tool ''computer_info_server.py'' connections_info)
   \<and> fst (connect_server demo_env ''security_server.py''
            (map (make_tool ''computer_info_server.py'') [cpu_info, connections_info],
             [''computer_info_server.py''])) = demo_tools
   \<and> select_tool demo_tools ''get_active_connections''
       = Some (make_tool ''computer_info_server.py'' connections_info)"
proof -
  let ?ts = "map (make_tool ''computer_info_server.py'') [cpu_info, connections_info]"
  have c: "connect demo_env ''security_server.py'' = None"
    by (simp add: demo_env_def)
  have l: "list_tools demo_env ''security_server.py'' = Inr [connections_info, auth_logs_info]"
    by (simp add: demo_env_def)
  have s: "select_tool ?ts ''get_active_connections''
             = Some (make_tool ''computer_info_server.py'' connections_info)"
    by (simp add: select_tool_def make_tool_def cpu_info_def connections_info_def Let_def)
  let ?r = "fst (connect_server demo_env ''security_server.py'' (?ts, [''computer_info_server.py'']))"
  from first_registration_wins[OF c l s, of "[''computer_info_server.py'']" "[]"]
  have a: "?r = ?ts @ map (make_tool ''security_server.py'') [connections_info, auth_logs_info]"
    and b: "select_tool ?r ''get_active_connections''
              = Some (make_tool ''computer_info_server.py'' connections_info)"
    by blast+
  have d: "?r = demo_tools"
    unfolding a by (simp add: demo_tools_def)
  from b have "select_tool demo_tools ''get_active_connections''
              = Some (make_tool ''computer_info_server.py'' connections_info)"
    unfolding d .
  with c l s d show ?thesis by blast
qed

text \<open>
  C2, as stated, fails: in the concrete environment two connected workers declare
  \<^verbatim>\<open>get_active_connections\<close>; both registrations succeed, and the tool list holds the name
  twice.
\<close>

theorem duplicate_tool_name_registered:
  "map (\<lambda>t. (name t, wrapper_client (coroutine t)))
       (tools (initialize demo_env (new_executor ''You are an auditor'')))
     = [(''get_cpu_info'', ''computer_info_server.py''),
        (''get_active_connections'', ''computer_info_server.py''),
        (''get_active_connections'', ''security_server.py''),
        (''get_auth_logs'', ''security_server.py'')]
   \<and> \<not> distinct (map name (tools (initialize demo_env (new_executor ''You are an auditor''))))"
  by (simp add: demo_initialize demo_tools_def make_tool_def cpu_info_def connections_info_def
      auth_logs_info_def Let_def)

section \<open>Tool execution: the contract is not applied\<close>

lemma select_tool_contracts:
  "select_tool (map (\<lambda>t. t\<lparr>args_schema := sch t\<rparr>) ts) n
     = map_option (\<lambda>t. t\<lparr>args_schema := sch t\<rparr>) (select_tool ts n)"
  by (induction ts) (simp_all add: select_tool_def)

lemma run_tool_call_contracts:
  "run_tool_call env (map (\<lambda>t. t\<lparr>args_schema := sch t\<rparr>) ts) tc log = run_tool_call env ts tc log"
  by (cases "select_tool ts (call_name tc)")
     (simp_all add: run_tool_call_def select_tool_contracts Let_def)

lemma execute_tool_calls_contracts:
  "execute_tool_calls env (map (\<lambda>t. t\<lparr>args_schema := sch t\<rparr>) ts) tcs log
     = execute_tool_calls env ts tcs log"
  by (induction tcs arbitrary: log) (simp_all add: run_tool_call_contracts)

text \<open>
  C4, as the code has it. The executor applies no contract to the arguments of a call:
  whatever contracts the registered tools carry, a call that names a registered tool is
  sent to the worker with the arguments it has, and its observation is the worker's answer
  (or the text of the worker's failure); the results of a turn do not depend on the
  contracts. No argument set is rejected, none is coerced.
\<close>

theorem arguments_never_validated:
  assumes "select_tool ts (call_name tc) = Some t"
  shows "run_tool_call env (map (\<lambda>t. t\<lparr>args_schema := sch t\<rparr>) ts) tc log =
     (let log' = log @ [CallTool (wrapper_client (coroutine t)) (wrapper_tool_name (coroutine t))
                          (call_args tc)]
      in (ToolMessage (call_id tc) (call_name tc)
            (Str (case call_tool env log' of
                    Inr res \<Rightarrow> repr_result env res
                  | Inl e \<Rightarrow> ''Error executing tool '' @ call_name tc @ '': '' @ str_of e)),
          log'))
     \<and> execute_tool_calls env (map (\<lambda>t. t\<lparr>args_schema := sch t\<rparr>) ts) tcs log
         = execute_tool_calls env ts tcs log"
  using run_tool_call_found[OF assms, of env log]
  by (simp add: run_tool_call_contracts execute_tool_calls_contracts)

theorem arguments_never_validated_witness:
  "select_tool demo_tools ''get_auth_logs'' = Some (make_tool ''security_server.py'' auth_logs_info)
   \<and> run_tool_call demo_env
        (map (\<lambda>t. t\<lparr>args_schema := Some \<lparr>model_name = ''Strict'',
                                           model_fields = [(''count'', T_int, Ellipsis),
                                                           (''since'', T_str, Ellipsis)]\<rparr>\<rparr>)
           demo_tools)
        (ToolCall ''get_auth_logs'' [(''count'', JBool True)] ''call_5'') []
     = (ToolMessage ''call_5'' ''get_auth_logs'' (Str ''reply of security_server.py''),
        [CallTool ''security_server.py'' ''get_auth_logs'' [(''count'', JBool True)]])"
proof -
  let ?tc = "ToolCall ''get_auth_logs'' [(''count'', JBool True)] ''call_5''"
  have h: "select_tool demo_tools (call_name ?tc)
             = Some (make_tool ''security_server.py'' auth_logs_info)"
    by (simp add: select_tool_demo)
  from arguments_never_validated[OF h, of demo_env
      "\<lambda>t. Some \<lparr>model_name = ''Strict'',
                  model_fields = [(''count'', T_int, Ellipsis), (''since'', T_str, Ellipsis)]\<rparr>"
      "[]" "[]"]
  have "run_tool_call demo_env
        (map (\<lambda>t. t\<lparr>args_schema := Some \<lparr>model_name = ''Strict'',
                                           model_fields = [(''count'', T_int, Ellipsis),
                                                           (''since'', T_str, Ellipsis)]\<rparr>\<rparr>)
           demo_tools) ?tc []
     = (ToolMessage ''call_5'' ''get_auth_logs'' (Str ''reply of security_server.py''),
        [CallTool ''security_server.py'' ''get_auth_logs'' [(''count'', JBool True)]])"
    by (simp add: coroutine_make_tool auth_logs_info_def demo_env_def)
  with h show ?thesis by simp
qed

text \<open>
  C4, as stated, fails: the contract of \<^verbatim>\<open>get_auth_logs\<close> requires the integer \<^verbatim>\<open>count\<close>,
  yet a call without \<^verbatim>\<open>count\<close> and a call with \<^verbatim>\<open>count\<close> set to the string \<^verbatim>\<open>five\<close> are
  both sent to the worker as they are, and both get the worker's reply as observation.
\<close>

theorem missing_required_argument_not_rejected:
  "args_schema (make_tool ''security_server.py'' auth_logs_info)
     = Some \<lparr>model_name = ''get_auth_logsArgs'', model_fields = [(''count'', T_int, Ellipsis)]\<rparr>
   \<and> execute_tools demo_env demo_tools
        [AIMessage (Str [])
           [ToolCall ''get_auth_logs'' [] ''call_1'',
            ToolCall ''get_auth_logs'' [(''count'', JStr ''five'')] ''call_2'']]
        []
     = (Inr [ToolMessage ''call_1'' ''get_auth_logs'' (Str ''reply of security_server.py''),
             ToolMessage ''call_2'' ''get_auth_logs'' (Str ''reply of security_server.py'')],
        [CallTool ''security_server.py'' ''get_auth_logs'' [],
         CallTool ''security_server.py'' ''get_auth_logs'' [(''count'', JStr ''five'')]])"
  by code_simp

end
